theory Spec2Isabelle
  imports Main "HOL-Library.Word" "HOL-Library.Sublist" "HOL-Library.AList"
begin

unbundle bit_operations_syntax

section \<open>JavaScript values used by StaticSite.ts\<close>

text \<open>
  Strings are byte strings (the UTF-8 encoding that \<^verbatim>\<open>hash.update(string)\<close> feeds to the
  digest).  An optional property is an \<open>option\<close>; \<open>None\<close> is \<^verbatim>\<open>undefined\<close>.  A thrown
  \<^verbatim>\<open>new Error(message)\<close> is the value \<open>Error message\<close>; a function that may throw returns
  \<open>error + 'a\<close>.
\<close>

datatype error = Error string

fun message :: "error \<Rightarrow> string" where
  "message (Error m) = m"

text \<open>Truthiness of an optional string: \<^verbatim>\<open>undefined\<close> and \<^verbatim>\<open>""\<close> are falsy.\<close>

definition truthy :: "string option \<Rightarrow> bool" where
  "truthy v = (case v of None \<Rightarrow> False | Some s \<Rightarrow> s \<noteq> [])"

text \<open>\<^verbatim>\<open>v || d\<close> on an optional string.\<close>

definition or_else :: "string option \<Rightarrow> string \<Rightarrow> string" where
  "or_else v d = (case v of None \<Rightarrow> d | Some s \<Rightarrow> if s = [] then d else s)"

text \<open>Decimal rendering of a non-negative integer, as template literals and \<^verbatim>\<open>join\<close> do.\<close>

fun show_nat :: "nat \<Rightarrow> string" where
  "show_nat n =
     (if n < 10 then [char_of (48 + n)]
      else show_nat (n div 10) @ [char_of (48 + n mod 10)])"

declare show_nat.simps [simp del]

text \<open>\<^verbatim>\<open>Array.prototype.join(sep)\<close> on an array of strings.\<close>

fun join :: "string \<Rightarrow> string list \<Rightarrow> string" where
  "join sep [] = []"
| "join sep [x] = x"
| "join sep (x # y # ys) = x @ sep @ join sep (y # ys)"

text \<open>
  An object with string keys is an association list in enumeration order;
  \<^verbatim>\<open>obj[key] = v\<close> is \<^const>\<open>AList.update\<close> (overwrite in place, or append a new key), and
  the spread \<^verbatim>\<open>{...a, ...b}\<close> assigns the entries of \<open>b\<close> onto a copy of \<open>a\<close>.
\<close>

type_synonym dict = "(string \<times> string) list"

definition spread :: "dict \<Rightarrow> dict \<Rightarrow> dict" where
  "spread a b = fold (\<lambda>(k, v). AList.update k v) b a"

section \<open>The digest: \<^verbatim>\<open>crypto.createHash("md5").update(s).digest("hex")\<close>\<close>

text \<open>MD5 as in RFC 1321, on 32-bit words.\<close>

type_synonym u32 = "32 word"

definition md5_K :: "u32 list" where
  "md5_K = [
    0xd76aa478, 0xe8c7b756, 0x242070db, 0xc1bdceee, 0xf57c0faf, 0x4787c62a, 0xa8304613, 0xfd469501,
    0x698098d8, 0x8b44f7af, 0xffff5bb1, 0x895cd7be, 0x6b901122, 0xfd987193, 0xa679438e, 0x49b40821,
    0xf61e2562, 0xc040b340, 0x265e5a51, 0xe9b6c7aa, 0xd62f105d, 0x02441453, 0xd8a1e681, 0xe7d3fbc8,
    0x21e1cde6, 0xc33707d6, 0xf4d50d87, 0x455a14ed, 0xa9e3e905, 0xfcefa3f8, 0x676f02d9, 0x8d2a4c8a,
    0xfffa3942, 0x8771f681, 0x6d9d6122, 0xfde5380c, 0xa4beea44, 0x4bdecfa9, 0xf6bb4b60, 0xbebfbc70,
    0x289b7ec6, 0xeaa127fa, 0xd4ef3085, 0x04881d05, 0xd9d4d039, 0xe6db99e5, 0x1fa27cf8, 0xc4ac5665,
    0xf4292244, 0x432aff97, 0xab9423a7, 0xfc93a039, 0x655b59c3, 0x8f0ccc92, 0xffeff47d, 0x85845dd1,
    0x6fa87e4f, 0xfe2ce6e0, 0xa3014314, 0x4e0811a1, 0xf7537e82, 0xbd3af235, 0x2ad7d2bb, 0xeb86d391]"

definition md5_s :: "nat list" where
  "md5_s = [
    7, 12, 17, 22, 7, 12, 17, 22, 7, 12, 17, 22, 7, 12, 17, 22,
    5, 9, 14, 20, 5, 9, 14, 20, 5, 9, 14, 20, 5, 9, 14, 20,
    4, 11, 16, 23, 4, 11, 16, 23, 4, 11, 16, 23, 4, 11, 16, 23,
    6, 10, 15, 21, 6, 10, 15, 21, 6, 10, 15, 21, 6, 10, 15, 21]"

definition rotl32 :: "u32 \<Rightarrow> nat \<Rightarrow> u32" where
  "rotl32 x c = push_bit c x OR drop_bit (32 - c) x"

type_synonym md5_state = "u32 \<times> u32 \<times> u32 \<times> u32"

definition md5_step :: "u32 list \<Rightarrow> nat \<Rightarrow> md5_state \<Rightarrow> md5_state" where
  "md5_step M i st = (case st of (a, b, c, d) \<Rightarrow>
     let f = (if i < 16 then (b AND c) OR (NOT b AND d)
              else if i < 32 then (d AND b) OR (NOT d AND c)
              else if i < 48 then b XOR c XOR d
              else c XOR (b OR NOT d));
         g = (if i < 16 then i
              else if i < 32 then (5 * i + 1) mod 16
              else if i < 48 then (3 * i + 5) mod 16
              else (7 * i) mod 16)
     in (d, b + rotl32 (a + f + md5_K ! i + M ! g) (md5_s ! i), b, c))"

definition md5_block :: "md5_state \<Rightarrow> u32 list \<Rightarrow> md5_state" where
  "md5_block st M = (case st of (a0, b0, c0, d0) \<Rightarrow>
     case fold (md5_step M) [0..<64] st of (a, b, c, d) \<Rightarrow>
       (a0 + a, b0 + b, c0 + c, d0 + d))"

text \<open>The \<open>n\<close> low bytes of a word, least significant first.\<close>

definition word_bytes :: "nat \<Rightarrow> 'a::len word \<Rightarrow> nat list" where
  "word_bytes n w = map (\<lambda>k. unat (take_bit 8 (drop_bit (8 * k) w))) [0..<n]"

text \<open>Padding: a one bit, zeros up to 56 modulo 64, the bit length in 64 bits.\<close>

definition md5_pad :: "nat list \<Rightarrow> nat list" where
  "md5_pad bs = bs @ [128] @ replicate ((119 - length bs mod 64) mod 64) 0
                 @ word_bytes 8 (8 * of_nat (length bs) :: 64 word)"

fun le_words :: "nat list \<Rightarrow> u32 list" where
  "le_words (b0 # b1 # b2 # b3 # bs) =
     (of_nat b0 OR push_bit 8 (of_nat b1) OR push_bit 16 (of_nat b2) OR push_bit 24 (of_nat b3))
       # le_words bs"
| "le_words _ = []"

fun chunks :: "nat \<Rightarrow> 'a list \<Rightarrow> 'a list list" where
  "chunks n [] = []"
| "chunks n xs = (if n = 0 then [xs] else take n xs # chunks n (drop n xs))"

definition md5 :: "string \<Rightarrow> md5_state" where
  "md5 s = fold (\<lambda>M st. md5_block st M) (chunks 16 (le_words (md5_pad (map of_char s))))
             (0x67452301, 0xefcdab89, 0x98badcfe, 0x10325476)"

definition hex_digit :: "nat \<Rightarrow> char" where
  "hex_digit n = ''0123456789abcdef'' ! n"

definition hex_byte :: "nat \<Rightarrow> string" where
  "hex_byte b = [hex_digit (b div 16), hex_digit (b mod 16)]"

definition word_hex :: "u32 \<Rightarrow> string" where
  "word_hex w = concat (map hex_byte (word_bytes 4 w))"

definition md5_hex :: "string \<Rightarrow> string" where
  "md5_hex s = (case md5 s of (a, b, c, d) \<Rightarrow>
     word_hex a @ word_hex b @ word_hex c @ word_hex d)"

section \<open>Configuration: \<^verbatim>\<open>StaticSiteProps\<close> and the types it mentions\<close>

record StaticSiteReplaceProps =
  files :: string
  search :: string
  replace :: string

text \<open>\<^verbatim>\<open>string | string[]\<close>\<close>

datatype patterns = Single string | Several "string list"

record StaticSiteFileOption =
  exclude_patterns :: patterns
  include_patterns :: patterns
  cacheControl :: string

text \<open>
  \<^verbatim>\<open>hostedZone?: string | route53.IHostedZone\<close> and \<^verbatim>\<open>certificate?: acm.ICertificate\<close>: the
  constructs are objects (always truthy), named here by an identifier.
\<close>

datatype hosted_zone = HostedZoneName string | HostedZoneConstruct string

datatype ICertificate = Certificate string

record StaticSiteDomainProps =
  domainName :: string
  domainAlias :: "string option"
  hostedZone :: "hosted_zone option"
  certificate :: "ICertificate option"
  isExternalDomain :: "bool option"

text \<open>\<^verbatim>\<open>customDomain?: string | StaticSiteDomainProps\<close>\<close>

datatype custom_domain = DomainString string | DomainProps StaticSiteDomainProps

text \<open>The properties of \<^verbatim>\<open>s3.BucketProps\<close> that the construct reads or sets.\<close>

record BucketProps =
  websiteIndexDocument :: "string option"
  websiteErrorDocument :: "string option"
  autoDeleteObjects :: "bool option"
  removalPolicy :: "string option"

text \<open>
  The error responses of the distribution: built by one of the two helpers of BaseSite
  (kept symbolic, with the page they are built for), or the list the user configured.
\<close>

datatype error_responses =
    ForRedirectToIndex string
  | For404ErrorPage string
  | Configured "string list"

text \<open>
  An origin of a distribution (\<^verbatim>\<open>cf.IOrigin\<close>): what it reads from, named by the construct id
  of the bucket, and the path it puts in front of every request.
\<close>

record Origin =
  originTarget :: string
  originPath :: "string option"

text \<open>
  The properties of \<^verbatim>\<open>StaticSiteCdkDistributionProps\<close> that the construct reads.
  \<^verbatim>\<open>defaultBehavior\<close> is declared as a \<^verbatim>\<open>cf.AddBehaviorOptions\<close>, which declares no \<^verbatim>\<open>origin\<close>;
  but every object that has the declared properties is assignable to it, a
  \<^verbatim>\<open>cf.BehaviorOptions\<close> (which extends it with \<^verbatim>\<open>origin\<close>) among them, and the spread at line
  518 copies every property the object has.  So the record carries \<open>opt_origin\<close> as well.  The
  other behaviour options pass through to the CDK unread and are left out.
\<close>

record AddBehaviorOptions =
  opt_viewerProtocolPolicy :: "string option"
  opt_origin :: "Origin option"

record StaticSiteCdkDistributionProps =
  cf_certificate :: "ICertificate option"
  cf_domainNames :: "string list option"
  cf_errorResponses :: "string list option"
  cf_defaultRootObject :: "string option"
  cf_defaultBehavior :: "AddBehaviorOptions option"

record StaticSiteProps =
  path :: string
  indexPage :: "string option"
  errorPage :: "string option"
  buildCommand :: "string option"
  buildOutput :: "string option"
  fileOptions :: "StaticSiteFileOption list option"
  replaceValues :: "StaticSiteReplaceProps list option"
  customDomain :: "custom_domain option"
  s3Bucket :: "BucketProps option"
  cfDistribution :: "StaticSiteCdkDistributionProps option"
  environment :: "dict option"
  disablePlaceholder :: "bool option"
  jestFileSizeLimitOverride :: "nat option"

text \<open>The fields of the root \<^verbatim>\<open>App\<close> that the constructor reads.\<close>

record App =
  local :: bool
  skipBuild :: bool
  buildDir :: string
  isJestTest :: bool

section \<open>The machine the construct runs on\<close>

text \<open>
  The file system maps each existing path to the fingerprint of what is stored there (the
  value \<^verbatim>\<open>s3Assets.Asset\<close> computes as \<^verbatim>\<open>assetHash\<close>).
\<close>

type_synonym file_system = "(string \<times> string) list"

definition existsSync :: "file_system \<Rightarrow> string \<Rightarrow> bool" where
  "existsSync fsys p = (map_of fsys p \<noteq> None)"

text \<open>One call of \<^verbatim>\<open>child_process.execSync(command, {cwd, env})\<close>.\<close>

record exec_call =
  command :: string
  cwd :: string
  env :: "dict option"

text \<open>
  What Node provides and the source does not define: the \<^verbatim>\<open>path\<close> module, \<^verbatim>\<open>__dirname\<close>,
  \<^verbatim>\<open>process.env\<close>, \<^verbatim>\<open>fs.removeSync\<close>, and the effect of a child process on the file system
  together with whether it exited normally.
\<close>

record host =
  path_resolve :: "string list \<Rightarrow> string"
  path_join :: "string list \<Rightarrow> string"
  dirname :: string
  process_env :: dict
  removeSync :: "string \<Rightarrow> file_system \<Rightarrow> file_system"
  child_process :: "exec_call \<Rightarrow> file_system \<Rightarrow> bool \<times> file_system"

text \<open>The mutable state: the file system and the child processes run so far.\<close>

record world =
  fs :: file_system
  exec_log :: "exec_call list"

text \<open>\<^verbatim>\<open>execSync\<close>: runs the process; \<open>False\<close> stands for the exception it throws.\<close>

definition execSync :: "host \<Rightarrow> exec_call \<Rightarrow> world \<Rightarrow> bool \<times> world" where
  "execSync h c w =
     (case child_process h c (fs w) of
        (ok, fsys') \<Rightarrow> (ok, \<lparr>fs = fsys', exec_log = exec_log w @ [c]\<rparr>))"

text \<open>
  \<^verbatim>\<open>new s3Assets.Asset(scope, id, {path})\<close>: the asset records its construct id, its path and
  the fingerprint of the content at that path; the library throws when the path is missing.
\<close>

record Asset =
  assetId :: string
  assetPath :: string
  assetHash :: string

definition new_Asset :: "file_system \<Rightarrow> string \<Rightarrow> string \<Rightarrow> error + Asset" where
  "new_Asset fsys cid p =
     (case map_of fsys p of
        None \<Rightarrow> Inl (Error (''Cannot find asset at '' @ p))
      | Some h \<Rightarrow> Inr \<lparr>assetId = cid, assetPath = p, assetHash = h\<rparr>)"

section \<open>What the construct creates\<close>

text \<open>
  The distribution handed to \<^verbatim>\<open>new cf.Distribution\<close>; \<open>origin\<close> and \<open>viewerProtocolPolicy\<close>
  are those of its default behavior.
\<close>

record Distribution =
  defaultRootObject :: string
  errorResponses :: "error_responses option"
  domainNames :: "string list"
  origin :: Origin
  viewerProtocolPolicy :: string

text \<open>
  The properties of the \<^verbatim>\<open>Custom::SSTBucketDeployment\<close> custom resource.  \<open>Sources\<close> lists the
  assets whose uploaded location the resource receives; the bucket name and the distribution
  id are references that CloudFormation resolves and are left out.
\<close>

record CustomResource =
  Sources :: "Asset list"
  DestinationBucketKeyPrefix :: string
  DistributionPaths :: "string list"
  FileOptions :: "string list list"
  ReplaceValues :: "StaticSiteReplaceProps list"

text \<open>The fields of the constructed \<^verbatim>\<open>StaticSite\<close>, and the custom resources in its scope.\<close>

record StaticSite =
  this_environment :: dict
  this_replaceValues :: "StaticSiteReplaceProps list"
  this_assets :: "Asset list"
  this_deployId :: string
  this_s3Bucket :: BucketProps
  this_cfDistribution :: Distribution
  customResources :: "CustomResource list"

section \<open>The constructor's loop over the environment (lines 103 to 122)\<close>

text \<open>
  One iteration: the token replaces the value in \<^verbatim>\<open>this.environment\<close> and two rules are
  pushed onto \<^verbatim>\<open>this.replaceValues\<close>.
\<close>

definition environment_entry ::
  "string \<times> string \<Rightarrow> dict \<times> StaticSiteReplaceProps list
     \<Rightarrow> dict \<times> StaticSiteReplaceProps list" where
  "environment_entry kv st =
     (case kv of (key, val) \<Rightarrow> case st of (this_env, this_rvs) \<Rightarrow>
        let token = ''{{ '' @ key @ '' }}'' in
        (AList.update key token this_env,
         this_rvs @ [\<lparr>files = ''**/*.js'', search = token, replace = val\<rparr>,
                     \<lparr>files = ''index.html'', search = token, replace = val\<rparr>]))"

text \<open>
  Lines 96 to 122: \<^verbatim>\<open>this.environment\<close> and \<^verbatim>\<open>this.replaceValues\<close> start from the props (or
  empty) and the loop runs over \<^verbatim>\<open>Object.entries(props.environment || {})\<close>.
\<close>

definition environment_placeholders ::
  "StaticSiteProps \<Rightarrow> dict \<times> StaticSiteReplaceProps list" where
  "environment_placeholders props =
     fold environment_entry
       (case environment props of None \<Rightarrow> [] | Some e \<Rightarrow> e)
       (case environment props of None \<Rightarrow> [] | Some e \<Rightarrow> e,
        case replaceValues props of None \<Rightarrow> [] | Some r \<Rightarrow> r)"

section \<open>\<^verbatim>\<open>validateCustomDomainSettings\<close> (lines 186 to 214)\<close>

definition truthy_zone :: "hosted_zone option \<Rightarrow> bool" where
  "truthy_zone z =
     (case z of None \<Rightarrow> False
      | Some (HostedZoneName s) \<Rightarrow> s \<noteq> []
      | Some (HostedZoneConstruct c) \<Rightarrow> True)"

definition validateCustomDomainSettings :: "StaticSiteProps \<Rightarrow> error + unit" where
  \<open>validateCustomDomainSettings props =
     (case customDomain props of
        None \<Rightarrow> Inr ()
      | Some (DomainString s) \<Rightarrow> Inr ()
      | Some (DomainProps d) \<Rightarrow>
          if isExternalDomain d = Some True then
            if certificate d = None then
              Inl (Error ''A valid certificate is required when "isExternalDomain" is set to "true".'')
            else if truthy (domainAlias d) then
              Inl (Error ''Domain alias is only supported for domains hosted on Amazon Route 53. Do not set the "customDomain.domainAlias" when "isExternalDomain" is enabled.'')
            else if truthy_zone (hostedZone d) then
              Inl (Error ''Hosted zones can only be configured for domains hosted on Amazon Route 53. Do not set the "customDomain.hostedZone" when "isExternalDomain" is enabled.'')
            else Inr ()
          else Inr ())\<close>

section \<open>\<^verbatim>\<open>buildApp\<close> (lines 289 to 379)\<close>

text \<open>Line 367: the path probed for part \<open>partId\<close>.\<close>

definition zipFilePath :: "host \<Rightarrow> string \<Rightarrow> nat \<Rightarrow> string" where
  "zipFilePath h zipPath partId = path_join h [zipPath, ''part'' @ show_nat partId @ ''.zip'']"

text \<open>
  Lines 365 to 378: the loop has no bound; it leaves at the first part that does not exist.
  \<open>None\<close> is the loop that never leaves.
\<close>

partial_function (option) collect_parts ::
  "host \<Rightarrow> file_system \<Rightarrow> string \<Rightarrow> nat \<Rightarrow> Asset list \<Rightarrow> (error + Asset list) option" where
  "collect_parts h fsys zipPath partId assets =
     (if \<not> existsSync fsys (zipFilePath h zipPath partId) then Some (Inr assets)
      else (case new_Asset fsys (''Asset'' @ show_nat partId) (zipFilePath h zipPath partId) of
              Inl e \<Rightarrow> Some (Inl e)
            | Inr a \<Rightarrow> collect_parts h fsys zipPath (partId + 1) (assets @ [a])))"

declare collect_parts.simps [code]

text \<open>Lines 318 to 332: the build command, when there is one; \<open>False\<close> when it throws.\<close>

definition run_buildCommand :: "host \<Rightarrow> StaticSiteProps \<Rightarrow> dict \<Rightarrow> world \<Rightarrow> bool \<times> world" where
  "run_buildCommand h props this_env w =
     (case buildCommand props of
        None \<Rightarrow> (True, w)
      | Some c \<Rightarrow>
          if c = [] then (True, w)
          else execSync h \<lparr>command = c, cwd = path props,
                            env = Some (spread (process_env h) this_env)\<rparr> w)"

text \<open>Lines 342 to 378: the archiver and the collection of its parts.\<close>

definition package_site ::
  "host \<Rightarrow> string \<Rightarrow> string \<Rightarrow> StaticSiteProps \<Rightarrow> nat \<Rightarrow> string \<Rightarrow> string \<Rightarrow> world
     \<Rightarrow> ((error + Asset list) \<times> world) option" where
  \<open>package_site h nid addr props fileSizeLimit' buildDir' siteOutputPath w =
     (let script = path_join h [dirname h, ''../assets/StaticSite/archiver.js''];
          zipPath = path_resolve h [path_join h [buildDir', ''StaticSite-'' @ nid @ ''-'' @ addr]];
          w1 = w\<lparr>fs := removeSync h zipPath (fs w)\<rparr>;
          cmd = join '' '' [''node'', script, siteOutputPath, zipPath, show_nat fileSizeLimit']
      in case execSync h \<lparr>command = cmd, cwd = path props, env = None\<rparr> w1 of
           (ok, w2) \<Rightarrow>
             if \<not> ok then
               Some (Inl (Error (''There was a problem generating the "'' @ nid
                                   @ ''" StaticSite package.'')), w2)
             else
               (case collect_parts h (fs w2) zipPath 0 [] of
                  None \<Rightarrow> None
                | Some r \<Rightarrow> Some (r, w2)))\<close>

definition buildApp ::
  "host \<Rightarrow> string \<Rightarrow> string \<Rightarrow> StaticSiteProps \<Rightarrow> dict \<Rightarrow> nat \<Rightarrow> string \<Rightarrow> bool \<Rightarrow> bool \<Rightarrow> world
     \<Rightarrow> ((error + Asset list) \<times> world) option" where
  \<open>buildApp h nid addr props this_env fileSizeLimit' buildDir' isSstStart skipBuild' w =
     (if isSstStart \<or> skipBuild' then
        (case new_Asset (fs w) ''Asset''
                 (path_resolve h [dirname h, ''../assets/StaticSite/stub'']) of
           Inl e \<Rightarrow> Some (Inl e, w)
         | Inr a \<Rightarrow> Some (Inr [a], w))
      else
        let sitePath = path props;
            buildOutput' = or_else (buildOutput props) ''.''
        in
        if \<not> existsSync (fs w) sitePath then
          Some (Inl (Error (''No path found at "'' @ path_resolve h [sitePath]
                              @ ''" for the "'' @ nid @ ''" StaticSite.'')), w)
        else
          (case run_buildCommand h props this_env w of
             (ok, w1) \<Rightarrow>
               if \<not> ok then
                 Some (Inl (Error (''There was a problem building the "'' @ nid
                                     @ ''" StaticSite.'')), w1)
               else
                 let siteOutputPath = path_resolve h [path_join h [sitePath, buildOutput']] in
                 if \<not> existsSync (fs w1) siteOutputPath then
                   Some (Inl (Error (''No build output found at "'' @ siteOutputPath
                                       @ ''" for the "'' @ nid @ ''" StaticSite.'')), w1)
                 else package_site h nid addr props fileSizeLimit' buildDir' siteOutputPath w1))\<close>

section \<open>The deployment id (lines 135 to 139)\<close>

definition deployId :: "bool \<Rightarrow> Asset list \<Rightarrow> string" where
  "deployId isSstStart assets =
     (let assetsHash = md5_hex (join [] (map assetHash assets))
      in if isSstStart then ''deploy-live'' else ''deploy-'' @ assetsHash)"

section \<open>\<^verbatim>\<open>createS3Bucket\<close> (lines 216 to 238)\<close>

definition createS3Bucket :: "StaticSiteProps \<Rightarrow> error + BucketProps" where
  \<open>createS3Bucket props =
     (let s3Bucket' = (case s3Bucket props of
                         None \<Rightarrow> \<lparr>websiteIndexDocument = None, websiteErrorDocument = None,
                                   autoDeleteObjects = None, removalPolicy = None\<rparr>
                       | Some b \<Rightarrow> b)
      in
      if truthy (websiteIndexDocument s3Bucket') then
        Inl (Error ''Do not configure the "s3Bucket.websiteIndexDocument". Use the "indexPage" to configure the StaticSite index page.'')
      else if truthy (websiteErrorDocument s3Bucket') then
        Inl (Error ''Do not configure the "s3Bucket.websiteErrorDocument". Use the "errorPage" to configure the StaticSite index page.'')
      else
        Inr (s3Bucket'\<lparr>
          autoDeleteObjects :=
            (case autoDeleteObjects s3Bucket' of None \<Rightarrow> Some True | Some v \<Rightarrow> Some v),
          removalPolicy :=
            (case removalPolicy s3Bucket' of None \<Rightarrow> Some ''destroy'' | Some v \<Rightarrow> Some v)\<rparr>))\<close>

section \<open>\<^verbatim>\<open>createCfDistribution\<close> (lines 454 to 521)\<close>

text \<open>
  Lines 513 to 519 build the default behavior as an object literal: first \<^verbatim>\<open>origin\<close> (the S3
  origin on the site's bucket with \<^verbatim>\<open>originPath: this.deployId\<close>), then
  \<^verbatim>\<open>viewerProtocolPolicy\<close>, then the spread of the user's \<^verbatim>\<open>defaultBehavior\<close>.  A property the
  user's object has replaces the one written before it.
\<close>

definition createCfDistribution ::
  "StaticSiteProps \<Rightarrow> string \<Rightarrow> bool \<Rightarrow> bool \<Rightarrow> error + Distribution" where
  \<open>createCfDistribution props this_deployId' isSstStart disablePlaceholder' =
     (let indexPage' = or_else (indexPage props) ''index.html'';
          cfDistributionProps =
            (case cfDistribution props of
               None \<Rightarrow> \<lparr>cf_certificate = None, cf_domainNames = None, cf_errorResponses = None,
                         cf_defaultRootObject = None, cf_defaultBehavior = None\<rparr>
             | Some c \<Rightarrow> c);
          domainNames' =
            (case customDomain props of
               None \<Rightarrow> []
             | Some (DomainString s) \<Rightarrow> if s = [] then [] else [s]
             | Some (DomainProps d) \<Rightarrow> [domainName d]);
          distribution = (\<lambda>errorResponses'.
            \<lparr>defaultRootObject =
               (case cf_defaultRootObject cfDistributionProps of
                  None \<Rightarrow> indexPage' | Some r \<Rightarrow> r),
             errorResponses =
               (case cf_errorResponses cfDistributionProps of
                  None \<Rightarrow> errorResponses' | Some r \<Rightarrow> Some (Configured r)),
             domainNames = domainNames',
             origin =
               (case cf_defaultBehavior cfDistributionProps of
                  None \<Rightarrow> \<lparr>originTarget = ''Bucket'', originPath = Some this_deployId'\<rparr>
                | Some b \<Rightarrow>
                    (case opt_origin b of
                       None \<Rightarrow> \<lparr>originTarget = ''Bucket'', originPath = Some this_deployId'\<rparr>
                     | Some user_origin \<Rightarrow> user_origin)),
             viewerProtocolPolicy =
               (case cf_defaultBehavior cfDistributionProps of
                  None \<Rightarrow> ''redirect-to-https''
                | Some b \<Rightarrow>
                    (case opt_viewerProtocolPolicy b of
                       None \<Rightarrow> ''redirect-to-https'' | Some v \<Rightarrow> v))\<rparr>)
      in
      if cf_certificate cfDistributionProps \<noteq> None then
        Inl (Error ''Do not configure the "cfDistribution.certificate". Use the "customDomain" to configure the StaticSite domain certificate.'')
      else if cf_domainNames cfDistributionProps \<noteq> None then
        Inl (Error ''Do not configure the "cfDistribution.domainNames". Use the "customDomain" to configure the StaticSite domain.'')
      else if isSstStart \<and> \<not> disablePlaceholder' then
        Inr (distribution (Some (ForRedirectToIndex indexPage')))
      else
        (case errorPage props of
           None \<Rightarrow> Inr (distribution None)
         | Some errorPage' \<Rightarrow>
             if errorPage' = [] then Inr (distribution None)
             else if cf_errorResponses cfDistributionProps \<noteq> None then
               Inl (Error ''Cannot configure the "cfDistribution.errorResponses" when "errorPage" is passed in. Use one or the other to configure the behavior for error pages.'')
             else if errorPage' = ''REDIRECT_TO_INDEX_PAGE'' then
               Inr (distribution (Some (ForRedirectToIndex indexPage')))
             else Inr (distribution (Some (For404ErrorPage errorPage')))))\<close>

section \<open>\<^verbatim>\<open>createS3Deployment\<close> (lines 558 to 592)\<close>

fun pattern_list :: "patterns \<Rightarrow> string list" where
  "pattern_list (Single p) = [p]"
| "pattern_list (Several ps) = ps"

definition file_option :: "StaticSiteFileOption \<Rightarrow> string list" where
  "file_option opt =
     concat (map (\<lambda>per. [''--exclude'', per]) (pattern_list (exclude_patterns opt)))
     @ concat (map (\<lambda>per. [''--include'', per]) (pattern_list (include_patterns opt)))
     @ [''--cache-control'', cacheControl opt]"

definition createS3Deployment ::
  "StaticSiteProps \<Rightarrow> Asset list \<Rightarrow> string \<Rightarrow> StaticSiteReplaceProps list \<Rightarrow> CustomResource" where
  "createS3Deployment props this_assets' this_deployId' this_replaceValues' =
     \<lparr>Sources = this_assets',
      DestinationBucketKeyPrefix = this_deployId',
      DistributionPaths = [''/*''],
      FileOptions = map file_option (case fileOptions props of None \<Rightarrow> [] | Some fo \<Rightarrow> fo),
      ReplaceValues = this_replaceValues'\<rparr>"

section \<open>The constructor (lines 80 to 151)\<close>

text \<open>
  The steps follow the source's order, so the first statement that throws decides the error.
  The hosted zone, the certificate, the Route 53 records and the two Lambda functions are
  resources the constructor asks the CDK for; this file has no throw statement on these paths
  and nothing below reads them, so they are not part of the result.
\<close>

text \<open>Lines 88 to 92: \<^verbatim>\<open>props.jestFileSizeLimitOverride || 200\<close> under Jest, 200 otherwise.\<close>

definition fileSizeLimit :: "App \<Rightarrow> StaticSiteProps \<Rightarrow> nat" where
  "fileSizeLimit root props =
     (if isJestTest root then
        (case jestFileSizeLimitOverride props of
           None \<Rightarrow> 200 | Some n \<Rightarrow> if n = 0 then 200 else n)
      else 200)"

definition StaticSite_constructor ::
  "host \<Rightarrow> App \<Rightarrow> string \<Rightarrow> string \<Rightarrow> StaticSiteProps \<Rightarrow> world
     \<Rightarrow> ((error + StaticSite) \<times> world) option" where
  "StaticSite_constructor h root nid addr props w =
     (let isSstStart = local root;
          disablePlaceholder' = (case disablePlaceholder props of None \<Rightarrow> False | Some b \<Rightarrow> b);
          this_env = fst (environment_placeholders props);
          this_rvs = snd (environment_placeholders props)
      in
      case validateCustomDomainSettings props of
        Inl e \<Rightarrow> Some (Inl e, w)
      | Inr u \<Rightarrow>
          (case buildApp h nid addr props this_env (fileSizeLimit root props) (buildDir root)
                  isSstStart (skipBuild root) w of
             None \<Rightarrow> None
           | Some (Inl e, w1) \<Rightarrow> Some (Inl e, w1)
           | Some (Inr assets, w1) \<Rightarrow>
               let this_deployId' = deployId isSstStart assets in
               (case createS3Bucket props of
                  Inl e \<Rightarrow> Some (Inl e, w1)
                | Inr bucket \<Rightarrow>
                    (case createCfDistribution props this_deployId' isSstStart
                            disablePlaceholder' of
                       Inl e \<Rightarrow> Some (Inl e, w1)
                     | Inr distribution \<Rightarrow>
                         Some (Inr \<lparr>this_environment = this_env,
                                    this_replaceValues = this_rvs,
                                    this_assets = assets,
                                    this_deployId = this_deployId',
                                    this_s3Bucket = bucket,
                                    this_cfDistribution = distribution,
                                    customResources =
                                      [createS3Deployment props assets this_deployId'
                                         this_rvs]\<rparr>, w1)))))"

section \<open>The publish handler of the custom resource\<close>








section \<open>Fingerprints\<close>


section \<open>An example deployment\<close>

text \<open>
  A host whose path functions join their arguments with a slash, whose build command writes
  the build output and whose archiver leaves two parts; a site with a build command, one
  environment variable and one replacement rule of its own.
\<close>

definition example_process :: "exec_call \<Rightarrow> file_system \<Rightarrow> bool \<times> file_system" where
  "example_process c fsys =
     (if command c = ''npm run build'' then (True, fsys @ [(''/site/dist'', ''d1'')])
      else (True, fsys @ [(''/work/.build/StaticSite-web-c8/part0.zip'', ''ab''),
                          (''/work/.build/StaticSite-web-c8/part1.zip'', ''c'')]))"

definition example_removeSync :: "string \<Rightarrow> file_system \<Rightarrow> file_system" where
  "example_removeSync p fsys = filter (\<lambda>e. \<not> prefix p (fst e)) fsys"

definition example_host :: host where
  "example_host =
     \<lparr>path_resolve = join ''/'', path_join = join ''/'', dirname = ''/sst/dist'',
      process_env = [(''HOME'', ''/root''), (''API_URL'', ''http://localhost'')],
      removeSync = example_removeSync,
      child_process = example_process\<rparr>"

definition example_props :: StaticSiteProps where
  "example_props =
     \<lparr>path = ''/site'', indexPage = None, errorPage = None,
      buildCommand = Some ''npm run build'', buildOutput = Some ''dist'',
      fileOptions = None,
      replaceValues = Some [\<lparr>files = ''*.css'', search = ''@color'', replace = ''red''\<rparr>],
      customDomain = None, s3Bucket = None, cfDistribution = None,
      environment = Some [(''API_URL'', ''https://api.example.com'')],
      disablePlaceholder = None, jestFileSizeLimitOverride = None\<rparr>"

definition example_app :: App where
  "example_app =
     \<lparr>local = False, skipBuild = False, buildDir = ''/work/.build'', isJestTest = False\<rparr>"

definition example_world :: world where
  "example_world =
     \<lparr>fs = [(''/site'', ''s0''), (''/sst/dist/../assets/StaticSite/stub'', ''5f'')],
      exec_log = []\<rparr>"

text \<open>The rules and the assets of the example, and what the constructor returns for it.\<close>

definition example_rules :: "StaticSiteReplaceProps list" where
  "example_rules =
     [\<lparr>files = ''*.css'', search = ''@color'', replace = ''red''\<rparr>,
      \<lparr>files = ''**/*.js'', search = ''{{ API_URL }}'', replace = ''https://api.example.com''\<rparr>,
      \<lparr>files = ''index.html'', search = ''{{ API_URL }}'',
        replace = ''https://api.example.com''\<rparr>]"

definition example_parts :: "Asset list" where
  "example_parts =
     [\<lparr>assetId = ''Asset0'', assetPath = ''/work/.build/StaticSite-web-c8/part0.zip'',
        assetHash = ''ab''\<rparr>,
      \<lparr>assetId = ''Asset1'', assetPath = ''/work/.build/StaticSite-web-c8/part1.zip'',
        assetHash = ''c''\<rparr>]"

definition example_stub :: "Asset list" where
  "example_stub =
     [\<lparr>assetId = ''Asset'', assetPath = ''/sst/dist/../assets/StaticSite/stub'',
        assetHash = ''5f''\<rparr>]"

definition example_site_with_origin ::
  "Asset list \<Rightarrow> string \<Rightarrow> error_responses option \<Rightarrow> Origin \<Rightarrow> StaticSite" where
  "example_site_with_origin as did er orig =
     \<lparr>this_environment = [(''API_URL'', ''{{ API_URL }}'')],
      this_replaceValues = example_rules,
      this_assets = as,
      this_deployId = did,
      this_s3Bucket =
        \<lparr>websiteIndexDocument = None, websiteErrorDocument = None,
         autoDeleteObjects = Some True, removalPolicy = Some ''destroy''\<rparr>,
      this_cfDistribution =
        \<lparr>defaultRootObject = ''index.html'', errorResponses = er, domainNames = [],
         origin = orig, viewerProtocolPolicy = ''redirect-to-https''\<rparr>,
      customResources =
        [\<lparr>Sources = as, DestinationBucketKeyPrefix = did, DistributionPaths = [''/*''],
          FileOptions = [], ReplaceValues = example_rules\<rparr>]\<rparr>"

definition example_site :: "Asset list \<Rightarrow> string \<Rightarrow> error_responses option \<Rightarrow> StaticSite" where
  "example_site as did er =
     example_site_with_origin as did er \<lparr>originTarget = ''Bucket'', originPath = Some did\<rparr>"

definition example_build_call :: exec_call where
  "example_build_call =
     \<lparr>command = ''npm run build'', cwd = ''/site'',
      env = Some [(''HOME'', ''/root''), (''API_URL'', ''{{ API_URL }}'')]\<rparr>"

definition example_archiver_call :: exec_call where
  "example_archiver_call =
     \<lparr>command = ''node /sst/dist/../assets/StaticSite/archiver.js /site/dist /work/.build/StaticSite-web-c8 200'',
      cwd = ''/site'', env = None\<rparr>"

definition example_world_built :: world where
  "example_world_built =
     \<lparr>fs = [(''/site'', ''s0''), (''/sst/dist/../assets/StaticSite/stub'', ''5f''),
            (''/site/dist'', ''d1''),
            (''/work/.build/StaticSite-web-c8/part0.zip'', ''ab''),
            (''/work/.build/StaticSite-web-c8/part1.zip'', ''c'')],
      exec_log = [example_build_call, example_archiver_call]\<rparr>"

text \<open>
  Two fingerprints, and the same site with a default behavior that carries an origin of its
  own.
\<close>

definition fingerprint_1 :: string where
  "fingerprint_1 = ''e3b0c44298fc1c149afbf4c8996fb92427ae41e4649b934ca495991b7852b855''"






text \<open>
  Child processes: one does nothing and exits normally, one fails, and one is an archiver
  that exits normally and leaves a single part.
\<close>

definition single_part_process :: "exec_call \<Rightarrow> file_system \<Rightarrow> bool \<times> file_system" where
  "single_part_process c fsys =
     (True, fsys @ [(''/work/.build/StaticSite-web-c8/part0.zip'', fingerprint_1)])"

definition idle_process :: "exec_call \<Rightarrow> file_system \<Rightarrow> bool \<times> file_system" where
  "idle_process c fsys = (True, fsys)"

definition failing_process :: "exec_call \<Rightarrow> file_system \<Rightarrow> bool \<times> file_system" where
  "failing_process c fsys = (False, fsys)"

text \<open>A file system with the site and an empty build output, and one with the site alone.\<close>

definition empty_output_world :: world where
  "empty_output_world = \<lparr>fs = [(''/site'', ''s0''), (''/site/dist'', ''d0'')], exec_log = []\<rparr>"

definition site_only_world :: world where
  "site_only_world = \<lparr>fs = [(''/site'', ''s0'')], exec_log = []\<rparr>"

text \<open>A file system that has the stub and no site.\<close>

definition stub_only_world :: world where
  "stub_only_world = \<lparr>fs = [(''/sst/dist/../assets/StaticSite/stub'', ''5f'')], exec_log = []\<rparr>"

text \<open>
  A structured custom domain on an external DNS provider, with a certificate; the variants
  below set the alias and the hosted zone.
\<close>

definition external_domain :: StaticSiteDomainProps where
  "external_domain =
     \<lparr>domainName = ''www.example.com'', domainAlias = None, hostedZone = None,
      certificate = Some (Certificate ''cert-1''), isExternalDomain = Some True\<rparr>"

section \<open>Facts about the digest and the constructor\<close>

text \<open>Joining with the empty separator is concatenation.\<close>

lemma join_empty: "join [] xs = concat xs"
  by (induction "[] :: string" xs rule: join.induct) simp_all

text \<open>The hexadecimal digest always has 32 characters, so no content-addressed id is the sentinel.\<close>

lemma upt_4: "[0..<4] = [0, 1, 2, 3]"
  by code_simp

lemma length_word_hex: "length (word_hex w) = 8"
  by (simp add: word_hex_def word_bytes_def hex_byte_def upt_4)

lemma length_md5_hex: "length (md5_hex s) = 32"
  by (cases "md5 s") (simp add: md5_hex_def length_word_hex)

lemma deployId_not_live: "deployId False assets \<noteq> ''deploy-live''"
proof
  assume "deployId False assets = ''deploy-live''"
  then have "md5_hex (join [] (map assetHash assets)) = ''live''"
    by (simp add: deployId_def)
  then have "length (md5_hex (join [] (map assetHash assets))) = 4"
    by simp
  then show False
    by (simp add: length_md5_hex)
qed

text \<open>What a constructor run that returns a site went through.\<close>

lemma constructor_Inr:
  assumes "StaticSite_constructor h root nid addr props w = Some (Inr s, w')"
  shows "\<exists>assets bucket distribution.
           validateCustomDomainSettings props = Inr () \<and>
           buildApp h nid addr props (fst (environment_placeholders props))
             (fileSizeLimit root props)
             (buildDir root) (local root) (skipBuild root) w = Some (Inr assets, w') \<and>
           createS3Bucket props = Inr bucket \<and>
           createCfDistribution props (deployId (local root) assets) (local root)
             (case disablePlaceholder props of None \<Rightarrow> False | Some b \<Rightarrow> b) = Inr distribution \<and>
           s = \<lparr>this_environment = fst (environment_placeholders props),
                this_replaceValues = snd (environment_placeholders props),
                this_assets = assets,
                this_deployId = deployId (local root) assets,
                this_s3Bucket = bucket,
                this_cfDistribution = distribution,
                customResources =
                  [createS3Deployment props assets (deployId (local root) assets)
                     (snd (environment_placeholders props))]\<rparr>"
  using assms
  by (auto simp: StaticSite_constructor_def Let_def split: sum.splits option.splits prod.splits)

lemma createCfDistribution_origin:
  "createCfDistribution props i m d = Inr dist \<Longrightarrow>
     origin dist =
       (case cfDistribution props of
          None \<Rightarrow> \<lparr>originTarget = ''Bucket'', originPath = Some i\<rparr>
        | Some c \<Rightarrow>
            (case cf_defaultBehavior c of
               None \<Rightarrow> \<lparr>originTarget = ''Bucket'', originPath = Some i\<rparr>
             | Some b \<Rightarrow>
                 (case opt_origin b of
                    None \<Rightarrow> \<lparr>originTarget = ''Bucket'', originPath = Some i\<rparr>
                  | Some user_origin \<Rightarrow> user_origin)))"
  by (cases "cfDistribution props"; cases "errorPage props")
    (auto simp: createCfDistribution_def Let_def split: if_splits)

text \<open>The loop over the environment in closed form.\<close>

lemma fold_environment_entry:
  "fold environment_entry es (e, r) =
     (fold (\<lambda>(k, v). AList.update k (''{{ '' @ k @ '' }}'')) es e,
      r @ concat (map (\<lambda>(k, v).
            [\<lparr>files = ''**/*.js'', search = ''{{ '' @ k @ '' }}'', replace = v\<rparr>,
             \<lparr>files = ''index.html'', search = ''{{ '' @ k @ '' }}'', replace = v\<rparr>]) es))"
  by (induction es arbitrary: e r) (auto simp: environment_entry_def Let_def)

lemma map_of_fold_tokens:
  "map_of (fold (\<lambda>(k, v). AList.update k (f k)) es e) x =
     (if x \<in> fst ` set es then Some (f x) else map_of e x)"
  by (induction es arbitrary: e) (auto simp: update_conv')

lemma distinct_fold_tokens:
  "distinct (map fst e) \<Longrightarrow> distinct (map fst (fold (\<lambda>(k, v). AList.update k (f k)) es e))"
  by (induction es arbitrary: e) (auto simp: distinct_update)

lemma map_of_spread:
  "distinct (map fst b) \<Longrightarrow> map_of (spread a b) = map_of a ++ map_of b"
  unfolding spread_def
proof (induction b arbitrary: a)
  case Nil
  then show ?case by simp
next
  case (Cons p b)
  obtain k v where p: "p = (k, v)" by (cases p)
  from Cons.prems p have "map_of b k = None" and d: "distinct (map fst b)"
    by (auto simp: map_of_eq_None_iff)
  then show ?case
    using Cons.IH [OF d, of "AList.update k v a"] p
    by (auto simp: update_conv' map_add_def fun_eq_iff split: option.splits)
qed

lemma environment_tokens:
  assumes "environment props = Some es" "(k, v) \<in> set es"
  shows "map_of (fst (environment_placeholders props)) k = Some (''{{ '' @ k @ '' }}'')"
  using assms
  by (force simp: environment_placeholders_def fold_environment_entry map_of_fold_tokens)

text \<open>Child processes only ever extend the log.\<close>

lemma exec_log_execSync: "execSync h c w = (ok, w1) \<Longrightarrow> exec_log w1 = exec_log w @ [c]"
  by (auto simp: execSync_def split: prod.splits)

lemma exec_log_package_site:
  "package_site h nid addr props lim bd out w = Some (r, w') \<Longrightarrow>
     \<exists>rest. exec_log w' = exec_log w @ rest"
  by (auto simp: package_site_def Let_def execSync_def split: prod.splits if_splits option.splits)

lemma buildApp_runs_buildCommand:
  assumes "buildCommand props = Some c" "c \<noteq> []" "\<not> isSstStart" "\<not> skipBuild'"
    "existsSync (fs w) (path props)"
    "buildApp h nid addr props this_env lim bd isSstStart skipBuild' w = Some (r, w')"
  shows "\<exists>rest. exec_log w' = exec_log w @
            \<lparr>command = c, cwd = path props, env = Some (spread (process_env h) this_env)\<rparr> # rest"
proof -
  obtain ok w1 where run: "run_buildCommand h props this_env w = (ok, w1)"
    by (cases "run_buildCommand h props this_env w")
  then have log: "exec_log w1 = exec_log w @
      [\<lparr>command = c, cwd = path props, env = Some (spread (process_env h) this_env)\<rparr>]"
    using assms(1,2) by (auto simp: run_buildCommand_def dest: exec_log_execSync)
  show ?thesis
    using assms(3-6) run log
    by (auto simp: buildApp_def Let_def split: if_splits dest!: exec_log_package_site)
qed

text \<open>The loop over the parts, started at any index with any list collected so far.\<close>

lemma collect_parts_from:
  assumes "\<not> existsSync fsys (zipFilePath h zipPath n)"
    and "\<forall>i. k \<le> i \<and> i < n \<longrightarrow> existsSync fsys (zipFilePath h zipPath i)"
    and "k \<le> n"
  shows "\<exists>new. collect_parts h fsys zipPath k acc = Some (Inr (acc @ new)) \<and>
           map assetId new = map (\<lambda>i. ''Asset'' @ show_nat i) [k..<n] \<and>
           map assetPath new = map (zipFilePath h zipPath) [k..<n] \<and>
           map (\<lambda>a. Some (assetHash a)) new = map (\<lambda>i. map_of fsys (zipFilePath h zipPath i)) [k..<n]"
  using assms
proof (induction "n - k" arbitrary: k acc)
  case 0
  then have "k = n" by simp
  with "0.prems"(1) show ?case
    by (subst collect_parts.simps) simp
next
  case (Suc d)
  then have kn: "k < n" by simp
  with Suc.prems(2) have ex: "existsSync fsys (zipFilePath h zipPath k)" by simp
  then obtain hk where hk: "map_of fsys (zipFilePath h zipPath k) = Some hk"
    by (auto simp: existsSync_def)
  let ?a = "\<lparr>assetId = ''Asset'' @ show_nat k, assetPath = zipFilePath h zipPath k, assetHash = hk\<rparr>"
  have step: "collect_parts h fsys zipPath k acc = collect_parts h fsys zipPath (k + 1) (acc @ [?a])"
    using ex hk by (subst collect_parts.simps) (simp add: new_Asset_def)
  have "d = n - (k + 1)" using Suc.hyps(2) by simp
  moreover have "\<forall>i. k + 1 \<le> i \<and> i < n \<longrightarrow> existsSync fsys (zipFilePath h zipPath i)"
    using Suc.prems(2) by simp
  moreover have "k + 1 \<le> n" using kn by simp
  ultimately obtain new where new:
    "collect_parts h fsys zipPath (k + 1) (acc @ [?a]) = Some (Inr ((acc @ [?a]) @ new))"
    "map assetId new = map (\<lambda>i. ''Asset'' @ show_nat i) [k + 1..<n]"
    "map assetPath new = map (zipFilePath h zipPath) [k + 1..<n]"
    "map (\<lambda>a. Some (assetHash a)) new = map (\<lambda>i. map_of fsys (zipFilePath h zipPath i)) [k + 1..<n]"
    using Suc.hyps(1) [of "k + 1" "acc @ [?a]"] Suc.prems(1) by blast
  have upt: "[k..<n] = k # [k + 1..<n]"
    using kn by (simp add: upt_conv_Cons)
  show ?case
    using step new hk by (intro exI [of _ "?a # new"]) (simp add: upt)
qed

text \<open>The stub branch of \<^verbatim>\<open>buildApp\<close>.\<close>

lemma buildApp_stub:
  assumes "isSstStart \<or> skipBuild'"
    and "buildApp h nid addr props this_env lim bd isSstStart skipBuild' w = Some (Inr assets, w')"
  shows "w' = w \<and>
         (\<exists>fp. map_of (fs w) (path_resolve h [dirname h, ''../assets/StaticSite/stub'']) = Some fp \<and>
               assets = [\<lparr>assetId = ''Asset'',
                          assetPath = path_resolve h [dirname h, ''../assets/StaticSite/stub''],
                          assetHash = fp\<rparr>])"
  using assms
  by (auto simp: buildApp_def new_Asset_def split: option.splits)

section \<open>The example deployment, evaluated\<close>

lemma md5_hex_abc: "md5_hex ''abc'' = ''900150983cd24fb0d6963f7d28e17f72''"
  by code_simp

lemma md5_hex_5f: "md5_hex ''5f'' = ''c467a926202625be53163e200463443e''"
  by code_simp

lemma example_run:
  "StaticSite_constructor example_host example_app ''web'' ''c8'' example_props example_world =
     Some (Inr (example_site example_parts ''deploy-900150983cd24fb0d6963f7d28e17f72'' None),
           example_world_built)"
  by code_simp

lemma example_run_live:
  "StaticSite_constructor example_host (example_app\<lparr>local := True\<rparr>) ''web'' ''c8''
       example_props example_world =
     Some (Inr (example_site example_stub ''deploy-live'' (Some (ForRedirectToIndex ''index.html''))),
           example_world)"
  by code_simp

lemma example_run_skipBuild:
  "StaticSite_constructor example_host (example_app\<lparr>skipBuild := True\<rparr>) ''web'' ''c8''
       example_props stub_only_world =
     Some (Inr (example_site example_stub ''deploy-c467a926202625be53163e200463443e'' None),
           stub_only_world)"
  by code_simp


section \<open>More facts used by the claims\<close>

text \<open>The loop over the parts never fails: it creates an asset only where it has seen the file.\<close>

lemma collect_parts_no_error:
  assumes "collect_parts h fsys zipPath k acc = Some r"
  shows "\<exists>assets. r = Inr assets"
proof (rule collect_parts.raw_induct
    [where P = "\<lambda>h fsys zipPath k acc r. \<exists>assets. r = Inr assets", OF _ assms])
  fix collect h fsys zipPath partId assets r
  assume IH: "\<And>h fsys zipPath partId assets y.
      collect h fsys zipPath partId assets = Some y \<Longrightarrow> \<exists>assets. y = Inr assets"
    and eq: "(if \<not> existsSync fsys (zipFilePath h zipPath partId) then Some (Inr assets)
      else case new_Asset fsys (''Asset'' @ show_nat partId) (zipFilePath h zipPath partId) of
             Inl e \<Rightarrow> Some (Inl e)
           | Inr a \<Rightarrow> collect h fsys zipPath (partId + 1) (assets @ [a])) = Some r"
  show "\<exists>assets. r = Inr assets"
  proof (cases "existsSync fsys (zipFilePath h zipPath partId)")
    case False
    with eq show ?thesis by auto
  next
    case True
    then obtain fp where "map_of fsys (zipFilePath h zipPath partId) = Some fp"
      by (auto simp: existsSync_def)
    with eq True IH show ?thesis
      by (auto simp: new_Asset_def)
  qed
qed

text \<open>The stub branch of \<^verbatim>\<open>buildApp\<close> returns whatever the site path is.\<close>

lemma buildApp_skipBuild:
  assumes "isSstStart \<or> skipBuild'"
    and "map_of (fs w) (path_resolve h [dirname h, ''../assets/StaticSite/stub'']) = Some fp"
  shows "buildApp h nid addr props this_env lim bd isSstStart skipBuild' w =
           Some (Inr [\<lparr>assetId = ''Asset'',
                       assetPath = path_resolve h [dirname h, ''../assets/StaticSite/stub''],
                       assetHash = fp\<rparr>], w)"
  using assms by (auto simp: buildApp_def new_Asset_def)




















text \<open>
  The destination prefix is always the deployment id; the origin is the site's own, with the
  deployment id as its path, unless the user's default behavior carries an origin.
\<close>

lemma prefix_and_default_origin:
  assumes "StaticSite_constructor h root nid addr props w = Some (Inr s, w')"
  shows "map DestinationBucketKeyPrefix (customResources s) = [this_deployId s] \<and>
         origin (this_cfDistribution s) =
           (case cfDistribution props of
              None \<Rightarrow> \<lparr>originTarget = ''Bucket'', originPath = Some (this_deployId s)\<rparr>
            | Some c \<Rightarrow>
                (case cf_defaultBehavior c of
                   None \<Rightarrow> \<lparr>originTarget = ''Bucket'', originPath = Some (this_deployId s)\<rparr>
                 | Some b \<Rightarrow>
                     (case opt_origin b of
                        None \<Rightarrow> \<lparr>originTarget = ''Bucket'', originPath = Some (this_deployId s)\<rparr>
                      | Some user_origin \<Rightarrow> user_origin)))"
proof -
  from constructor_Inr [OF assms] obtain assets distribution where
    cf: "createCfDistribution props (deployId (local root) assets) (local root)
           (case disablePlaceholder props of None \<Rightarrow> False | Some b \<Rightarrow> b) = Inr distribution"
    and s: "this_deployId s = deployId (local root) assets"
      "this_cfDistribution s = distribution"
      "map DestinationBucketKeyPrefix (customResources s) = [deployId (local root) assets]"
    by (auto simp: createS3Deployment_def)
  show ?thesis
    using createCfDistribution_origin [OF cf] by (simp add: s cong: option.case_cong)
qed


section \<open>C1: the deployment id\<close>

text \<open>
  C1.  Whenever the constructor returns a site, its deployment id is \<open>deploy-live\<close> when the app
  runs in dev mode (\<^verbatim>\<open>sst start\<close>), whatever the assets are, and otherwise the string
  \<open>deploy-\<close> followed by the hexadecimal MD5 digest of the concatenation of the asset hashes,
  in the order of the asset list.
\<close>

theorem deployId_resolution:
  assumes "StaticSite_constructor h root nid addr props w = Some (Inr s, w')"
  shows "this_deployId s =
           (if local root then ''deploy-live''
            else ''deploy-'' @ md5_hex (concat (map assetHash (this_assets s))))"
  using constructor_Inr [OF assms] by (auto simp: deployId_def join_empty)

theorem deployId_resolution_witness:
  "StaticSite_constructor example_host example_app ''web'' ''c8'' example_props example_world =
     Some (Inr (example_site example_parts ''deploy-900150983cd24fb0d6963f7d28e17f72'' None),
           example_world_built) \<and>
   this_deployId (example_site example_parts ''deploy-900150983cd24fb0d6963f7d28e17f72'' None) =
     ''deploy-'' @ md5_hex (concat (map assetHash example_parts)) \<and>
   StaticSite_constructor example_host (example_app\<lparr>local := True\<rparr>) ''web'' ''c8''
       example_props example_world =
     Some (Inr (example_site example_stub ''deploy-live'' (Some (ForRedirectToIndex ''index.html''))),
           example_world) \<and>
   this_deployId (example_site example_stub ''deploy-live'' (Some (ForRedirectToIndex ''index.html'')))
     = ''deploy-live''"
  using deployId_resolution [OF example_run] deployId_resolution [OF example_run_live]
    example_run example_run_live
  by (simp add: example_site_def example_site_with_origin_def example_app_def)

section \<open>C2: equal and different deployment ids\<close>




section \<open>C3: the substitution rules\<close>

text \<open>
  C3.  The rules after the loop are the user's \<^verbatim>\<open>replaceValues\<close> followed, for each entry
  \<open>(KEY, value)\<close> of the environment in enumeration order, by exactly two rules: one for
  \<^verbatim>\<open>**/*.js\<close> and one for \<^verbatim>\<open>index.html\<close>, both searching for \<^verbatim>\<open>{{ KEY }}\<close> and replacing it with
  the value.  A constructed site holds these rules and hands them to its custom resource.
\<close>

theorem substitution_rules:
  "snd (environment_placeholders props) =
     (case replaceValues props of None \<Rightarrow> [] | Some r \<Rightarrow> r) @
     concat (map (\<lambda>(k, v).
            [\<lparr>files = ''**/*.js'', search = ''{{ '' @ k @ '' }}'', replace = v\<rparr>,
             \<lparr>files = ''index.html'', search = ''{{ '' @ k @ '' }}'', replace = v\<rparr>])
        (case environment props of None \<Rightarrow> [] | Some e \<Rightarrow> e)) \<and>
   (StaticSite_constructor h root nid addr props w = Some (Inr s, w') \<longrightarrow>
      this_replaceValues s = snd (environment_placeholders props) \<and>
      map ReplaceValues (customResources s) = [snd (environment_placeholders props)])"
proof -
  have "StaticSite_constructor h root nid addr props w = Some (Inr s, w') \<Longrightarrow>
      this_replaceValues s = snd (environment_placeholders props) \<and>
      map ReplaceValues (customResources s) = [snd (environment_placeholders props)]"
    using constructor_Inr [of h root nid addr props w s w']
    by (auto simp: createS3Deployment_def)
  then show ?thesis
    by (simp add: environment_placeholders_def fold_environment_entry)
qed

theorem substitution_rules_witness:
  "snd (environment_placeholders example_props) = example_rules \<and>
   StaticSite_constructor example_host example_app ''web'' ''c8'' example_props example_world =
     Some (Inr (example_site example_parts ''deploy-900150983cd24fb0d6963f7d28e17f72'' None),
           example_world_built) \<and>
   this_replaceValues (example_site example_parts ''deploy-900150983cd24fb0d6963f7d28e17f72'' None)
     = example_rules \<and>
   map ReplaceValues
     (customResources (example_site example_parts ''deploy-900150983cd24fb0d6963f7d28e17f72'' None))
     = [example_rules]"
  using substitution_rules [of example_props example_host example_app "''web''" "''c8''" example_world
      "example_site example_parts ''deploy-900150983cd24fb0d6963f7d28e17f72'' None" example_world_built]
    example_run
  by (simp add: example_props_def example_rules_def)

section \<open>C4: failures of the build step\<close>

text \<open>
  The claim promises an error of its own for a build output that exists and holds no files.
  The build step has no such check.  In the first run below the build output exists and
  nothing lies under it, the archiver exits normally and leaves one part, and the build step
  returns that part as its asset.  In the second run the build command fails while the build
  output does not exist, and the error does not name a path.
\<close>

theorem empty_output_counterexample:
  \<open>existsSync (fs empty_output_world) ''/site/dist'' \<and>
   filter (prefix ''/site/dist/'') (map fst (fs empty_output_world)) = [] \<and>
   buildApp (example_host\<lparr>child_process := single_part_process\<rparr>) ''web'' ''c8''
       (example_props\<lparr>buildCommand := None\<rparr>) (fst (environment_placeholders example_props))
       200 ''/work/.build'' False False empty_output_world
     = Some (Inr [\<lparr>assetId = ''Asset0'',
                   assetPath = ''/work/.build/StaticSite-web-c8/part0.zip'',
                   assetHash = fingerprint_1\<rparr>],
             \<lparr>fs = [(''/site'', ''s0''), (''/site/dist'', ''d0''),
                    (''/work/.build/StaticSite-web-c8/part0.zip'', fingerprint_1)],
              exec_log = [example_archiver_call]\<rparr>) \<and>
   \<not> existsSync (fs site_only_world) ''/site/dist'' \<and>
   buildApp (example_host\<lparr>child_process := failing_process\<rparr>) ''web'' ''c8''
       example_props (fst (environment_placeholders example_props))
       200 ''/work/.build'' False False site_only_world
     = Some (Inl (Error ''There was a problem building the "web" StaticSite.''),
             site_only_world\<lparr>exec_log := [example_build_call]\<rparr>)\<close>
  by code_simp

text \<open>
  C4, as amended.  With dev mode and skip-build off: if the site path does not exist, the build
  step fails with an error that names the resolved site path; if the build command fails, it
  fails with the build error; if the build command is absent or has exited normally and the
  resolved build-output path does not exist then, it fails with an error that names that
  path.  An existing build output is handed to the archiver whatever it holds: the build
  step fails with the package error when the archiver process fails; when the archiver exits
  normally the build step raises no error at all, and if \<open>n\<close> is the least index whose part
  is missing it returns the \<open>n\<close> parts before it, none when part 0 is missing.
\<close>

theorem build_step_failures:
  fixes h :: host and props :: StaticSiteProps and w w1 w2 w' :: world
    and nid addr bd :: string and lim n :: nat and this_env :: dict and e :: error
  defines "out \<equiv> path_resolve h [path_join h [path props, or_else (buildOutput props) ''.'']]"
    and "zipPath \<equiv> path_resolve h [path_join h [bd, ''StaticSite-'' @ nid @ ''-'' @ addr]]"
  defines "archiver \<equiv>
      \<lparr>command = join '' '' [''node'', path_join h [dirname h, ''../assets/StaticSite/archiver.js''],
                               out, zipPath, show_nat lim],
       cwd = path props, env = None\<rparr>"
  shows \<open>(\<not> existsSync (fs w) (path props) \<longrightarrow>
            (\<exists>m. buildApp h nid addr props this_env lim bd False False w = Some (Inl (Error m), w) \<and>
                 sublist (path_resolve h [path props]) m)) \<and>
         (existsSync (fs w) (path props) \<and> run_buildCommand h props this_env w = (False, w1) \<longrightarrow>
            buildApp h nid addr props this_env lim bd False False w =
              Some (Inl (Error (''There was a problem building the "'' @ nid @ ''" StaticSite.'')), w1)) \<and>
         (existsSync (fs w) (path props) \<and> run_buildCommand h props this_env w = (True, w1) \<and>
          \<not> existsSync (fs w1) out \<longrightarrow>
            (\<exists>m. buildApp h nid addr props this_env lim bd False False w = Some (Inl (Error m), w1) \<and>
                 sublist out m)) \<and>
         (existsSync (fs w) (path props) \<and> run_buildCommand h props this_env w = (True, w1) \<and>
          existsSync (fs w1) out \<and>
          execSync h archiver (w1\<lparr>fs := removeSync h zipPath (fs w1)\<rparr>) = (False, w2) \<longrightarrow>
            buildApp h nid addr props this_env lim bd False False w =
              Some (Inl (Error (''There was a problem generating the "'' @ nid
                                  @ ''" StaticSite package.'')), w2)) \<and>
         (existsSync (fs w) (path props) \<and> run_buildCommand h props this_env w = (True, w1) \<and>
          existsSync (fs w1) out \<and>
          execSync h archiver (w1\<lparr>fs := removeSync h zipPath (fs w1)\<rparr>) = (True, w2) \<longrightarrow>
            buildApp h nid addr props this_env lim bd False False w \<noteq> Some (Inl e, w') \<and>
            (\<not> existsSync (fs w2) (zipFilePath h zipPath n) \<and>
             (\<forall>i<n. existsSync (fs w2) (zipFilePath h zipPath i)) \<longrightarrow>
               (\<exists>assets. buildApp h nid addr props this_env lim bd False False w =
                            Some (Inr assets, w2) \<and>
                          map assetPath assets = map (zipFilePath h zipPath) [0..<n])))\<close>
proof -
  have site: \<open>sublist (path_resolve h [path props])
      (''No path found at "'' @ path_resolve h [path props] @ ''" for the "'' @ nid @ ''" StaticSite.'')\<close>
    by (rule sublist_appendI)
  have outp: \<open>sublist out
      (''No build output found at "'' @ out @ ''" for the "'' @ nid @ ''" StaticSite.'')\<close>
    by (rule sublist_appendI)
  have packaged: "package_site h nid addr props lim bd out w1 =
      (case collect_parts h (fs w2) zipPath 0 [] of None \<Rightarrow> None | Some r \<Rightarrow> Some (r, w2))"
    if "execSync h archiver (w1\<lparr>fs := removeSync h zipPath (fs w1)\<rparr>) = (True, w2)"
    using that unfolding package_site_def zipPath_def archiver_def Let_def by simp
  have no_error: "package_site h nid addr props lim bd out w1 \<noteq> Some (Inl e, w')"
    if "execSync h archiver (w1\<lparr>fs := removeSync h zipPath (fs w1)\<rparr>) = (True, w2)"
    using packaged [OF that] collect_parts_no_error [of h "fs w2" zipPath 0 "[]"]
    by (auto split: option.splits)
  have parts: "\<exists>assets. package_site h nid addr props lim bd out w1 = Some (Inr assets, w2) \<and>
                 map assetPath assets = map (zipFilePath h zipPath) [0..<n]"
    if "execSync h archiver (w1\<lparr>fs := removeSync h zipPath (fs w1)\<rparr>) = (True, w2)"
      "\<not> existsSync (fs w2) (zipFilePath h zipPath n)"
      "\<forall>i<n. existsSync (fs w2) (zipFilePath h zipPath i)"
    using packaged [OF that(1)] collect_parts_from [of "fs w2" h zipPath n 0 "[]"] that(2,3)
    by auto
  have build: "buildApp h nid addr props this_env lim bd False False w =
      package_site h nid addr props lim bd out w1"
    if "existsSync (fs w) (path props)" "run_buildCommand h props this_env w = (True, w1)"
      "existsSync (fs w1) out"
    using that unfolding buildApp_def out_def Let_def by simp
  have failures: \<open>(\<not> existsSync (fs w) (path props) \<longrightarrow>
            (\<exists>m. buildApp h nid addr props this_env lim bd False False w = Some (Inl (Error m), w) \<and>
                 sublist (path_resolve h [path props]) m)) \<and>
         (existsSync (fs w) (path props) \<and> run_buildCommand h props this_env w = (False, w1) \<longrightarrow>
            buildApp h nid addr props this_env lim bd False False w =
              Some (Inl (Error (''There was a problem building the "'' @ nid @ ''" StaticSite.'')), w1)) \<and>
         (existsSync (fs w) (path props) \<and> run_buildCommand h props this_env w = (True, w1) \<and>
          \<not> existsSync (fs w1) out \<longrightarrow>
            (\<exists>m. buildApp h nid addr props this_env lim bd False False w = Some (Inl (Error m), w1) \<and>
                 sublist out m)) \<and>
         (existsSync (fs w) (path props) \<and> run_buildCommand h props this_env w = (True, w1) \<and>
          existsSync (fs w1) out \<and>
          execSync h archiver (w1\<lparr>fs := removeSync h zipPath (fs w1)\<rparr>) = (False, w2) \<longrightarrow>
            buildApp h nid addr props this_env lim bd False False w =
              Some (Inl (Error (''There was a problem generating the "'' @ nid
                                  @ ''" StaticSite package.'')), w2))\<close>
    using site outp
    unfolding buildApp_def package_site_def out_def zipPath_def archiver_def Let_def
    by (simp del: append.simps)
  show ?thesis
    using failures build no_error parts by metis
qed

theorem build_step_failures_witness:
  \<open>\<not> existsSync (fs stub_only_world) (path example_props) \<and>
   buildApp example_host ''web'' ''c8'' example_props (fst (environment_placeholders example_props))
       200 ''/work/.build'' False False stub_only_world
     = Some (Inl (Error ''No path found at "/site" for the "web" StaticSite.''), stub_only_world) \<and>
   existsSync (fs site_only_world) (path example_props) \<and>
   run_buildCommand (example_host\<lparr>child_process := idle_process\<rparr>) example_props
       (fst (environment_placeholders example_props)) site_only_world
     = (True, site_only_world\<lparr>exec_log := [example_build_call]\<rparr>) \<and>
   buildApp (example_host\<lparr>child_process := idle_process\<rparr>) ''web'' ''c8'' example_props
       (fst (environment_placeholders example_props)) 200 ''/work/.build'' False False site_only_world
     = Some (Inl (Error ''No build output found at "/site/dist" for the "web" StaticSite.''),
             site_only_world\<lparr>exec_log := [example_build_call]\<rparr>) \<and>
   buildApp (example_host\<lparr>child_process := failing_process\<rparr>) ''web'' ''c8''
       (example_props\<lparr>buildCommand := None\<rparr>) (fst (environment_placeholders example_props))
       200 ''/work/.build'' False False empty_output_world
     = Some (Inl (Error ''There was a problem generating the "web" StaticSite package.''),
             empty_output_world\<lparr>exec_log := [example_archiver_call]\<rparr>) \<and>
   buildApp example_host ''web'' ''c8'' example_props (fst (environment_placeholders example_props))
       200 ''/work/.build'' False False example_world
     = Some (Inr example_parts, example_world_built) \<and>
   map assetPath example_parts =
     map (zipFilePath example_host ''/work/.build/StaticSite-web-c8'') [0, 1] \<and>
   buildApp (example_host\<lparr>child_process := idle_process\<rparr>) ''web'' ''c8''
       (example_props\<lparr>buildCommand := None\<rparr>) (fst (environment_placeholders example_props))
       200 ''/work/.build'' False False empty_output_world
     = Some (Inr [], empty_output_world\<lparr>exec_log := [example_archiver_call]\<rparr>)\<close>
proof -
  have concl: ?thesis by code_simp
  show ?thesis
    using build_step_failures
        [of stub_only_world example_props example_host "''web''" "''c8''"
          "fst (environment_placeholders example_props)" 200 "''/work/.build''"]
      build_step_failures
        [of example_world example_props example_host "''web''" "''c8''"
          "fst (environment_placeholders example_props)" 200 "''/work/.build''"]
      concl
    by simp
qed

section \<open>C5: the collected parts\<close>



section \<open>C6: the invalidation request\<close>



section \<open>C7: the destination prefix and the origin path\<close>


section \<open>C8: the environment of the build command\<close>

text \<open>
  C8.  Let the build command be configured and non-empty, dev mode and skip-build off, the
  custom domain valid and the site path present, and let the environment name each key once.
  Then every constructor run that returns has run the build command as the first child
  process, in the site path, with each declared \<open>KEY\<close> bound to \<^verbatim>\<open>{{ KEY }}\<close>; the declared
  value is kept in the two substitution rules for that token.
\<close>

theorem buildCommand_environment:
  assumes "buildCommand props = Some c" "c \<noteq> []"
    "\<not> local root" "\<not> skipBuild root"
    "validateCustomDomainSettings props = Inr ()"
    "existsSync (fs w) (path props)"
    "distinct (map fst (case environment props of None \<Rightarrow> [] | Some es \<Rightarrow> es))"
    "StaticSite_constructor h root nid addr props w = Some (r, w')"
  shows "\<exists>e rest.
           exec_log w' = exec_log w @ \<lparr>command = c, cwd = path props, env = Some e\<rparr> # rest \<and>
           (\<forall>(k, v) \<in> set (case environment props of None \<Rightarrow> [] | Some es \<Rightarrow> es).
              map_of e k = Some (''{{ '' @ k @ '' }}'') \<and>
              \<lparr>files = ''**/*.js'', search = ''{{ '' @ k @ '' }}'', replace = v\<rparr>
                \<in> set (snd (environment_placeholders props)) \<and>
              \<lparr>files = ''index.html'', search = ''{{ '' @ k @ '' }}'', replace = v\<rparr>
                \<in> set (snd (environment_placeholders props)))"
proof -
  let ?env = "fst (environment_placeholders props)"
  obtain r1 where build:
    "buildApp h nid addr props ?env (fileSizeLimit root props) (buildDir root)
       (local root) (skipBuild root) w = Some (r1, w')"
    using assms(5,8)
    by (auto simp: StaticSite_constructor_def Let_def split: option.splits sum.splits prod.splits)
  from buildApp_runs_buildCommand [OF assms(1-4) assms(6) build]
  obtain rest where log: "exec_log w' = exec_log w @
      \<lparr>command = c, cwd = path props, env = Some (spread (process_env h) ?env)\<rparr> # rest"
    by blast
  have tokens: "map_of (spread (process_env h) ?env) k = Some (''{{ '' @ k @ '' }}'')"
    if "environment props = Some es" "(k, v) \<in> set es" for es k v
  proof -
    have "distinct (map fst ?env)"
      using assms(7) that(1)
      by (simp add: environment_placeholders_def fold_environment_entry distinct_fold_tokens)
    then show ?thesis
      using environment_tokens [OF that] by (simp add: map_of_spread)
  qed
  have rules: "\<lparr>files = ''**/*.js'', search = ''{{ '' @ k @ '' }}'', replace = v\<rparr>
                \<in> set (snd (environment_placeholders props)) \<and>
              \<lparr>files = ''index.html'', search = ''{{ '' @ k @ '' }}'', replace = v\<rparr>
                \<in> set (snd (environment_placeholders props))"
    if "environment props = Some es" "(k, v) \<in> set es" for es k v
    using that by (force simp: environment_placeholders_def fold_environment_entry)
  show ?thesis
    using log tokens rules by (cases "environment props") auto
qed

theorem buildCommand_environment_witness:
  "buildCommand example_props = Some ''npm run build'' \<and>
   validateCustomDomainSettings example_props = Inr () \<and>
   existsSync (fs example_world) (path example_props) \<and>
   distinct (map fst [(''API_URL'', ''https://api.example.com'')]) \<and>
   environment example_props = Some [(''API_URL'', ''https://api.example.com'')] \<and>
   StaticSite_constructor example_host example_app ''web'' ''c8'' example_props example_world =
     Some (Inr (example_site example_parts ''deploy-900150983cd24fb0d6963f7d28e17f72'' None),
           example_world_built) \<and>
   exec_log example_world_built =
     exec_log example_world @
       \<lparr>command = ''npm run build'', cwd = ''/site'',
        env = Some [(''HOME'', ''/root''), (''API_URL'', ''{{ API_URL }}'')]\<rparr> # [example_archiver_call] \<and>
   map_of [(''HOME'', ''/root''), (''API_URL'', ''{{ API_URL }}'')] ''API_URL'' = Some ''{{ API_URL }}''"
proof -
  have h1: "buildCommand example_props = Some ''npm run build''" by (simp add: example_props_def)
  have h2: "''npm run build'' \<noteq> []" by simp
  have h3: "\<not> local example_app" and h4: "\<not> skipBuild example_app" by (simp_all add: example_app_def)
  have h5: "validateCustomDomainSettings example_props = Inr ()" by code_simp
  have h6: "existsSync (fs example_world) (path example_props)" by code_simp
  have h7: "distinct (map fst (case environment example_props of None \<Rightarrow> [] | Some es \<Rightarrow> es))"
    by (simp add: example_props_def)
  have rest: "distinct (map fst [(''API_URL'', ''https://api.example.com'')]) \<and>
      environment example_props = Some [(''API_URL'', ''https://api.example.com'')] \<and>
      exec_log example_world_built =
        exec_log example_world @
          \<lparr>command = ''npm run build'', cwd = ''/site'',
           env = Some [(''HOME'', ''/root''), (''API_URL'', ''{{ API_URL }}'')]\<rparr> # [example_archiver_call] \<and>
      map_of [(''HOME'', ''/root''), (''API_URL'', ''{{ API_URL }}'')] ''API_URL'' = Some ''{{ API_URL }}''"
    by (simp add: example_props_def example_world_built_def example_world_def example_build_call_def)
  show ?thesis
    using buildCommand_environment [OF h1 h2 h3 h4 h5 h6 h7 example_run] h1 h5 h6 rest example_run
    by simp
qed

section \<open>C9: skip-build without dev mode\<close>

text \<open>
  C9.  For every constructed site the deployment id is the sentinel \<open>deploy-live\<close> exactly when
  dev mode is on.  With skip-build on and dev mode off, a run that returns a site leaves the
  file system and the process log as they were, the only asset is the stub, and the
  deployment id is \<open>deploy-\<close> followed by the MD5 digest of the stub's fingerprint.  Under the
  same two settings the build step needs the stub and nothing else: whatever the properties
  and the rest of the file system are, with or without the site path and the build output,
  it returns the stub asset, and the constructor returns a site whenever the custom domain,
  the bucket and the distribution settings are accepted.
\<close>

theorem skipBuild_identity:
  "(StaticSite_constructor h root nid addr props w = Some (Inr s, w') \<longrightarrow>
      (this_deployId s = ''deploy-live'' \<longleftrightarrow> local root) \<and>
      (skipBuild root \<and> \<not> local root \<longrightarrow>
         w' = w \<and>
         (\<exists>fp. map_of (fs w) (path_resolve h [dirname h, ''../assets/StaticSite/stub'']) = Some fp \<and>
               this_assets s =
                 [\<lparr>assetId = ''Asset'',
                   assetPath = path_resolve h [dirname h, ''../assets/StaticSite/stub''],
                   assetHash = fp\<rparr>] \<and>
               this_deployId s = ''deploy-'' @ md5_hex fp))) \<and>
   (skipBuild root \<and> \<not> local root \<and>
    map_of (fs w) (path_resolve h [dirname h, ''../assets/StaticSite/stub'']) = Some fp \<longrightarrow>
      buildApp h nid addr props (fst (environment_placeholders props)) (fileSizeLimit root props)
          (buildDir root) (local root) (skipBuild root) w =
        Some (Inr [\<lparr>assetId = ''Asset'',
                    assetPath = path_resolve h [dirname h, ''../assets/StaticSite/stub''],
                    assetHash = fp\<rparr>], w) \<and>
      (validateCustomDomainSettings props = Inr () \<and>
       createS3Bucket props = Inr bucket \<and>
       createCfDistribution props (''deploy-'' @ md5_hex fp) False
         (case disablePlaceholder props of None \<Rightarrow> False | Some b \<Rightarrow> b) = Inr distribution \<longrightarrow>
         (\<exists>site. StaticSite_constructor h root nid addr props w = Some (Inr site, w))))"
proof -
  have returned: "(this_deployId s = ''deploy-live'' \<longleftrightarrow> local root) \<and>
      (skipBuild root \<and> \<not> local root \<longrightarrow>
         w' = w \<and>
         (\<exists>fp. map_of (fs w) (path_resolve h [dirname h, ''../assets/StaticSite/stub'']) = Some fp \<and>
               this_assets s =
                 [\<lparr>assetId = ''Asset'',
                   assetPath = path_resolve h [dirname h, ''../assets/StaticSite/stub''],
                   assetHash = fp\<rparr>] \<and>
               this_deployId s = ''deploy-'' @ md5_hex fp))"
    if run: "StaticSite_constructor h root nid addr props w = Some (Inr s, w')"
  proof -
    from constructor_Inr [OF run] obtain assets where
      build: "buildApp h nid addr props (fst (environment_placeholders props))
                (fileSizeLimit root props) (buildDir root) (local root) (skipBuild root) w
              = Some (Inr assets, w')"
      and s: "this_assets s = assets" "this_deployId s = deployId (local root) assets"
      by auto
    have live: "this_deployId s = ''deploy-live'' \<longleftrightarrow> local root"
      using s(2) deployId_not_live [of assets] by (cases "local root") (simp_all add: deployId_def)
    have stub: "w' = w \<and>
          (\<exists>fp. map_of (fs w) (path_resolve h [dirname h, ''../assets/StaticSite/stub'']) = Some fp \<and>
                this_assets s =
                  [\<lparr>assetId = ''Asset'',
                    assetPath = path_resolve h [dirname h, ''../assets/StaticSite/stub''],
                    assetHash = fp\<rparr>] \<and>
                this_deployId s = ''deploy-'' @ md5_hex fp)"
      if "skipBuild root" "\<not> local root"
      using buildApp_stub [OF _ build] that s by (auto simp: deployId_def)
    show ?thesis using live stub by blast
  qed
  have skipped: "buildApp h nid addr props (fst (environment_placeholders props))
          (fileSizeLimit root props) (buildDir root) (local root) (skipBuild root) w =
        Some (Inr [\<lparr>assetId = ''Asset'',
                    assetPath = path_resolve h [dirname h, ''../assets/StaticSite/stub''],
                    assetHash = fp\<rparr>], w)"
    if "skipBuild root"
      "map_of (fs w) (path_resolve h [dirname h, ''../assets/StaticSite/stub'']) = Some fp"
    using buildApp_skipBuild [of "local root" "skipBuild root" w h fp] that by simp
  have constructed: "\<exists>site. StaticSite_constructor h root nid addr props w = Some (Inr site, w)"
    if "skipBuild root" "\<not> local root"
      "map_of (fs w) (path_resolve h [dirname h, ''../assets/StaticSite/stub'']) = Some fp"
      "validateCustomDomainSettings props = Inr ()"
      "createS3Bucket props = Inr bucket"
      "createCfDistribution props (''deploy-'' @ md5_hex fp) False
         (case disablePlaceholder props of None \<Rightarrow> False | Some b \<Rightarrow> b) = Inr distribution"
    using skipped [OF that(1,3)] that
    by (simp add: StaticSite_constructor_def Let_def deployId_def)
  show ?thesis
    using returned skipped constructed by blast
qed

theorem skipBuild_identity_witness:
  "skipBuild (example_app\<lparr>skipBuild := True\<rparr>) \<and>
   \<not> local (example_app\<lparr>skipBuild := True\<rparr>) \<and>
   \<not> existsSync (fs stub_only_world) (path example_props) \<and>
   map_of (fs stub_only_world) (path_resolve example_host [dirname example_host, ''../assets/StaticSite/stub''])
     = Some ''5f'' \<and>
   buildApp example_host ''web'' ''c8'' example_props (fst (environment_placeholders example_props))
       (fileSizeLimit (example_app\<lparr>skipBuild := True\<rparr>) example_props)
       (buildDir (example_app\<lparr>skipBuild := True\<rparr>)) False True stub_only_world
     = Some (Inr example_stub, stub_only_world) \<and>
   StaticSite_constructor example_host (example_app\<lparr>skipBuild := True\<rparr>) ''web'' ''c8''
       example_props stub_only_world =
     Some (Inr (example_site example_stub ''deploy-c467a926202625be53163e200463443e'' None),
           stub_only_world) \<and>
   this_assets (example_site example_stub ''deploy-c467a926202625be53163e200463443e'' None)
     = example_stub \<and>
   this_deployId (example_site example_stub ''deploy-c467a926202625be53163e200463443e'' None)
     = ''deploy-'' @ md5_hex ''5f''"
proof -
  have missing: "\<not> existsSync (fs stub_only_world) (path example_props)" by code_simp
  have stub: "map_of (fs stub_only_world)
      (path_resolve example_host [dirname example_host, ''../assets/StaticSite/stub'']) = Some ''5f''"
    by code_simp
  have build: "buildApp example_host ''web'' ''c8'' example_props
       (fst (environment_placeholders example_props))
       (fileSizeLimit (example_app\<lparr>skipBuild := True\<rparr>) example_props)
       (buildDir (example_app\<lparr>skipBuild := True\<rparr>)) False True stub_only_world
     = Some (Inr example_stub, stub_only_world)"
    by code_simp
  show ?thesis
    using skipBuild_identity
        [of example_host "example_app\<lparr>skipBuild := True\<rparr>" "''web''" "''c8''" example_props
          stub_only_world
          "example_site example_stub ''deploy-c467a926202625be53163e200463443e'' None"
          stub_only_world "''5f''"]
      example_run_skipBuild missing stub build md5_hex_5f
    by (simp add: example_app_def example_site_def example_site_with_origin_def)
qed

section \<open>C10: validation of the custom domain\<close>

text \<open>
  The claim says that an external domain is rejected exactly when the certificate is missing
  or an alias or a hosted zone is set.  An alias set to the empty string is not rejected.
\<close>

theorem empty_alias_counterexample:
  "domainAlias (external_domain\<lparr>domainAlias := Some []\<rparr>) \<noteq> None \<and>
   isExternalDomain (external_domain\<lparr>domainAlias := Some []\<rparr>) = Some True \<and>
   validateCustomDomainSettings
     (example_props\<lparr>customDomain := Some (DomainProps (external_domain\<lparr>domainAlias := Some []\<rparr>))\<rparr>)
     = Inr ()"
  by (simp add: validateCustomDomainSettings_def external_domain_def example_props_def
      truthy_def truthy_zone_def)

text \<open>
  C10, as amended.  Validation never throws for an absent custom domain, for a plain string,
  or for a structured domain whose \<^verbatim>\<open>isExternalDomain\<close> is not \<^verbatim>\<open>true\<close>.  For a structured
  domain with \<^verbatim>\<open>isExternalDomain\<close> set to \<^verbatim>\<open>true\<close> it throws exactly when the certificate is
  missing, or the alias is a non-empty string, or the hosted zone is a construct or a
  non-empty string; the error names the first of these settings that offends.
\<close>

theorem customDomain_validation:
  "(customDomain props = None \<longrightarrow> validateCustomDomainSettings props = Inr ()) \<and>
   (customDomain props = Some (DomainString name) \<longrightarrow> validateCustomDomainSettings props = Inr ()) \<and>
   (customDomain props = Some (DomainProps d) \<and> isExternalDomain d \<noteq> Some True \<longrightarrow>
      validateCustomDomainSettings props = Inr ()) \<and>
   (customDomain props = Some (DomainProps d) \<and> isExternalDomain d = Some True \<longrightarrow>
      (isl (validateCustomDomainSettings props) \<longleftrightarrow>
         certificate d = None \<or> truthy (domainAlias d) \<or> truthy_zone (hostedZone d)) \<and>
      (certificate d = None \<longrightarrow>
         (\<exists>m. validateCustomDomainSettings props = Inl (Error m) \<and> sublist ''certificate'' m)) \<and>
      (certificate d \<noteq> None \<and> truthy (domainAlias d) \<longrightarrow>
         (\<exists>m. validateCustomDomainSettings props = Inl (Error m) \<and>
              sublist ''customDomain.domainAlias'' m)) \<and>
      (certificate d \<noteq> None \<and> \<not> truthy (domainAlias d) \<and> truthy_zone (hostedZone d) \<longrightarrow>
         (\<exists>m. validateCustomDomainSettings props = Inl (Error m) \<and>
              sublist ''customDomain.hostedZone'' m)))"
proof -
  have c: \<open>sublist ''certificate''
      ''A valid certificate is required when "isExternalDomain" is set to "true".''\<close>
    by code_simp
  have a: \<open>sublist ''customDomain.domainAlias''
      ''Domain alias is only supported for domains hosted on Amazon Route 53. Do not set the "customDomain.domainAlias" when "isExternalDomain" is enabled.''\<close>
    by code_simp
  have z: \<open>sublist ''customDomain.hostedZone''
      ''Hosted zones can only be configured for domains hosted on Amazon Route 53. Do not set the "customDomain.hostedZone" when "isExternalDomain" is enabled.''\<close>
    by code_simp
  show ?thesis
    using c a z by (auto simp: validateCustomDomainSettings_def)
qed

theorem customDomain_validation_witness:
  \<open>validateCustomDomainSettings example_props = Inr () \<and>
   validateCustomDomainSettings (example_props\<lparr>customDomain := Some (DomainString ''www.example.com'')\<rparr>)
     = Inr () \<and>
   validateCustomDomainSettings
     (example_props\<lparr>customDomain := Some (DomainProps (external_domain\<lparr>isExternalDomain := None\<rparr>))\<rparr>)
     = Inr () \<and>
   validateCustomDomainSettings (example_props\<lparr>customDomain := Some (DomainProps external_domain)\<rparr>)
     = Inr () \<and>
   validateCustomDomainSettings
     (example_props\<lparr>customDomain := Some (DomainProps (external_domain\<lparr>certificate := None\<rparr>))\<rparr>)
     = Inl (Error ''A valid certificate is required when "isExternalDomain" is set to "true".'') \<and>
   validateCustomDomainSettings
     (example_props\<lparr>customDomain :=
        Some (DomainProps (external_domain\<lparr>domainAlias := Some ''example.com''\<rparr>))\<rparr>)
     = Inl (Error ''Domain alias is only supported for domains hosted on Amazon Route 53. Do not set the "customDomain.domainAlias" when "isExternalDomain" is enabled.'') \<and>
   validateCustomDomainSettings
     (example_props\<lparr>customDomain :=
        Some (DomainProps (external_domain\<lparr>hostedZone := Some (HostedZoneName ''example.com'')\<rparr>))\<rparr>)
     = Inl (Error ''Hosted zones can only be configured for domains hosted on Amazon Route 53. Do not set the "customDomain.hostedZone" when "isExternalDomain" is enabled.'')\<close>
proof -
  have concl: ?thesis by code_simp
  show ?thesis
    using customDomain_validation [of example_props "''www.example.com''" external_domain]
      customDomain_validation
        [of "example_props\<lparr>customDomain := Some (DomainProps (external_domain\<lparr>certificate := None\<rparr>))\<rparr>"
          "''www.example.com''" "external_domain\<lparr>certificate := None\<rparr>"]
      concl
    by simp
qed

end
